theory Spec2Isabelle
  imports Main
begin

section \<open>Python strings\<close>

text \<open>
  A Python \<^verbatim>\<open>str\<close> is a sequence of Unicode code points; a code point is a natural
  number. The literals of the source are ASCII and are written \<open>py ''...''\<close>.
\<close>

type_synonym pystr = "nat list"

definition py :: "string \<Rightarrow> pystr" where
  "py s = map of_char s"

text \<open>
  \<^verbatim>\<open>str.isspace\<close> on one code point: the characters CPython's \<^verbatim>\<open>str.strip()\<close> removes
  (tab to carriage return, the four separators FS GS RS US, space, NEL, no-break space
  and the Unicode space separators).
\<close>

definition isspace :: "nat \<Rightarrow> bool" where
  "isspace c \<longleftrightarrow>
     (9 \<le> c \<and> c \<le> 13) \<or> (28 \<le> c \<and> c \<le> 32) \<or> c = 133 \<or> c = 160 \<or> c = 5760 \<or>
     (8192 \<le> c \<and> c \<le> 8202) \<or> c = 8232 \<or> c = 8233 \<or> c = 8239 \<or> c = 8287 \<or>
     c = 12288"

text \<open>\<^verbatim>\<open>s.strip()\<close>: leading and trailing whitespace removed, the inside kept.\<close>

definition py_strip :: "pystr \<Rightarrow> pystr" where
  "py_strip s = rev (dropWhile isspace (rev (dropWhile isspace s)))"

text \<open>
  Case mapping. On ASCII code points it is written out. The case mapping of the other
  code points is the Unicode database of the Python runtime, which is no part of this
  program: it is a parameter. \<^verbatim>\<open>str.upper()\<close> maps code point by code point (one code
  point may become several); \<^verbatim>\<open>str.lower()\<close> depends on the context for a capital
  sigma, so its parameter maps a whole non-ASCII string.
\<close>

record unicode_db =
  toupper_full :: "nat \<Rightarrow> pystr"
  lower_non_ascii :: "pystr \<Rightarrow> pystr"

definition ascii_upper :: "nat \<Rightarrow> nat" where
  "ascii_upper c = (if 97 \<le> c \<and> c \<le> 122 then c - 32 else c)"

definition ascii_lower :: "nat \<Rightarrow> nat" where
  "ascii_lower c = (if 65 \<le> c \<and> c \<le> 90 then c + 32 else c)"

definition py_upper :: "unicode_db \<Rightarrow> pystr \<Rightarrow> pystr" where
  "py_upper U s = concat (map (\<lambda>c. if c < 128 then [ascii_upper c] else toupper_full U c) s)"

definition py_lower :: "unicode_db \<Rightarrow> pystr \<Rightarrow> pystr" where
  "py_lower U s = (if list_all (\<lambda>c. c < 128) s then map ascii_lower s else lower_non_ascii U s)"

text \<open>\<^verbatim>\<open>f"{raw}"\<close> of a value that is a string or \<^verbatim>\<open>None\<close>.\<close>

definition py_format :: "pystr option \<Rightarrow> pystr" where
  "py_format raw = (case raw of None \<Rightarrow> py ''None'' | Some r \<Rightarrow> r)"

text \<open>Truth value of a configuration entry read with \<^verbatim>\<open>dict.get\<close>: absent is \<^verbatim>\<open>None\<close>, falsy.\<close>

definition py_bool :: "bool option \<Rightarrow> bool" where
  "py_bool v = (case v of None \<Rightarrow> False | Some b \<Rightarrow> b)"


section \<open>Data model\<close>

text \<open>The state constants the module imports, and \<^verbatim>\<open>STATE_UNKNOWN\<close>.\<close>

datatype alarm_state =
    STATE_UNKNOWN
  | STATE_ALARM_DISARMED
  | STATE_ALARM_ARMED_HOME
  | STATE_ALARM_ARMED_AWAY
  | STATE_ALARM_ARMED_NIGHT
  | STATE_ALARM_TRIGGERED
  | STATE_ALARM_PENDING
  | STATE_ALARM_ARMING

text \<open>The attributes of a \<^verbatim>\<open>VisonicAlarm\<close> object (\<open>user_code\<close> is \<^verbatim>\<open>_code\<close>, \<open>ident\<close> is \<^verbatim>\<open>_id\<close>).\<close>

record visonic_alarm =
  attr_state :: alarm_state
  user_code :: "pystr option"
  no_pin_required :: "bool option"
  changed_by :: "pystr option"
  changed_timestamp :: "pystr option"
  event_hour_offset :: "int option"
  ident :: pystr

text \<open>
  What the code does to its collaborators, in the order it does it: calls of the hub and
  of the alarm client, the blocking \<^verbatim>\<open>sleep\<close>, persistent notifications (message, title)
  and log lines.
\<close>

datatype effect =
    HubUpdate
  | ClientDisarm
  | ClientArmHome
  | ClientArmAway
  | ClientGetLastEvent "int option"
  | Sleep nat
  | Notify pystr pystr
  | LogWarning pystr
  | LogDebug pystr

text \<open>
  The collaborators themselves (\<^verbatim>\<open>HUB\<close>, its alarm client, its configuration, the clock)
  live outside this module. They are a parameter: a state \<open>'w\<close> of the outside world and
  the operations the module uses on it. Every call is taken to return normally.
\<close>

record 'w ext =
  hub_update :: "'w \<Rightarrow> 'w"
  hub_alarm_state :: "'w \<Rightarrow> pystr option"
  hub_alarm_ready :: "'w \<Rightarrow> bool"
  hub_alarm_serial_number :: "'w \<Rightarrow> pystr"
  hub_alarm_disarm :: "'w \<Rightarrow> 'w"
  hub_alarm_arm_home :: "'w \<Rightarrow> 'w"
  hub_alarm_arm_away :: "'w \<Rightarrow> 'w"
  hub_alarm_get_last_event :: "int option \<Rightarrow> 'w \<Rightarrow> (pystr option \<times> pystr option) \<times> 'w"
  hub_config_user_code :: "pystr option"
  hub_config_no_pin_required :: "bool option"
  hub_config_event_hour_offset :: "int option"
  time_sleep :: "nat \<Rightarrow> 'w \<Rightarrow> 'w"

text \<open>The whole state: the outside world, the effects so far (oldest first), the entity.\<close>

record 'w sys =
  world :: 'w
  trace :: "effect list"
  entity :: visonic_alarm

definition emit :: "effect \<Rightarrow> 'w sys \<Rightarrow> 'w sys" where
  "emit e s = s\<lparr>trace := trace s @ [e]\<rparr>"

definition call :: "effect \<Rightarrow> ('w \<Rightarrow> 'w) \<Rightarrow> 'w sys \<Rightarrow> 'w sys" where
  "call e f s = emit e (s\<lparr>world := f (world s)\<rparr>)"


section \<open>The entity\<close>

definition init :: "'w ext \<Rightarrow> 'w \<Rightarrow> visonic_alarm" where
  "init X w =
     \<lparr>attr_state = STATE_UNKNOWN,
      user_code = hub_config_user_code X,
      no_pin_required = hub_config_no_pin_required X,
      changed_by = None,
      changed_timestamp = None,
      event_hour_offset = hub_config_event_hour_offset X,
      ident = hub_alarm_serial_number X w\<rparr>"

definition update_last_event :: "pystr option \<Rightarrow> pystr option \<Rightarrow> 'w sys \<Rightarrow> 'w sys" where
  "update_last_event user timestamp s =
     s\<lparr>entity := (entity s)\<lparr>changed_by := user, changed_timestamp := timestamp\<rparr>\<rparr>"

text \<open>The dictionary literal of \<^verbatim>\<open>update\<close>; a later entry would replace an earlier one.\<close>

definition mapping :: "pystr \<rightharpoonup> alarm_state" where
  "mapping =
     [py ''AWAY'' \<mapsto> STATE_ALARM_ARMED_AWAY,
      py ''ARMED_AWAY'' \<mapsto> STATE_ALARM_ARMED_AWAY,
      py ''ARM'' \<mapsto> STATE_ALARM_ARMED_AWAY,
      py ''ARM_AWAY'' \<mapsto> STATE_ALARM_ARMED_AWAY,
      py ''HOME'' \<mapsto> STATE_ALARM_ARMED_HOME,
      py ''STAY'' \<mapsto> STATE_ALARM_ARMED_HOME,
      py ''ARMED_HOME'' \<mapsto> STATE_ALARM_ARMED_HOME,
      py ''ARM_HOME'' \<mapsto> STATE_ALARM_ARMED_HOME,
      py ''DISARM'' \<mapsto> STATE_ALARM_DISARMED,
      py ''DISARMED'' \<mapsto> STATE_ALARM_DISARMED,
      py ''READY'' \<mapsto> STATE_ALARM_DISARMED,
      py ''IDLE'' \<mapsto> STATE_ALARM_DISARMED,
      py ''ARMING'' \<mapsto> STATE_ALARM_ARMING,
      py ''EXITDELAY'' \<mapsto> STATE_ALARM_ARMING,
      py ''ENTRYDELAY'' \<mapsto> STATE_ALARM_PENDING,
      py ''PENDING'' \<mapsto> STATE_ALARM_PENDING,
      py ''ALARM'' \<mapsto> STATE_ALARM_TRIGGERED,
      py ''TRIGGERED'' \<mapsto> STATE_ALARM_TRIGGERED]"

text \<open>\<^verbatim>\<open>d.get(k, dflt)\<close>.\<close>

definition dict_get :: "('k \<rightharpoonup> 'v) \<Rightarrow> 'k \<Rightarrow> 'v \<Rightarrow> 'v" where
  "dict_get d k dflt = (case d k of None \<Rightarrow> dflt | Some v \<Rightarrow> v)"

text \<open>
  \<^verbatim>\<open>update\<close>. The raw status of the client is a string or \<^verbatim>\<open>None\<close>, so \<^verbatim>\<open>str(raw)\<close> is the
  string itself. The early \<^verbatim>\<open>return\<close> on \<^verbatim>\<open>None\<close> is the first branch; no statement raises.
\<close>

definition update :: "unicode_db \<Rightarrow> 'w ext \<Rightarrow> 'w sys \<Rightarrow> 'w sys" where
  "update U X s =
     (let s1 = call HubUpdate (hub_update X) s;
          raw = hub_alarm_state X (world s1);
          s2 = emit (LogWarning (py ''Visonic raw state: '' @ py_format raw)) s1
      in case raw of
           None \<Rightarrow> s2\<lparr>entity := (entity s2)\<lparr>attr_state := STATE_UNKNOWN\<rparr>\<rparr>
         | Some r \<Rightarrow>
             (let status = py_upper U (py_strip r);
                  s3 = emit (LogDebug (py ''Visonic normalized state: '' @ status)) s2
              in s3\<lparr>entity := (entity s3)\<lparr>attr_state := dict_get mapping status STATE_UNKNOWN\<rparr>\<rparr>))"

text \<open>
  The three commands. The code argument and the configured code are a string or \<^verbatim>\<open>None\<close>;
  \<^verbatim>\<open>!=\<close> compares them as values.
\<close>

definition alarm_disarm :: "unicode_db \<Rightarrow> 'w ext \<Rightarrow> pystr option \<Rightarrow> 'w sys \<Rightarrow> 'w sys" where
  "alarm_disarm U X code s =
     (if \<not> py_bool (no_pin_required (entity s)) \<and> code \<noteq> user_code (entity s) then
        emit (Notify (py ''You entered the wrong disarm code.'') (py ''Disarm Failed'')) s
      else
        update U X (call (Sleep 1) (time_sleep X 1) (call ClientDisarm (hub_alarm_disarm X) s)))"

definition alarm_arm_home :: "unicode_db \<Rightarrow> 'w ext \<Rightarrow> pystr option \<Rightarrow> 'w sys \<Rightarrow> 'w sys" where
  "alarm_arm_home U X code s =
     (if \<not> py_bool (no_pin_required (entity s)) \<and> code \<noteq> user_code (entity s) then
        emit (Notify (py ''You entered the wrong arm code.'') (py ''Arm Failed'')) s
      else if hub_alarm_ready X (world s) then
        update U X (call (Sleep 1) (time_sleep X 1) (call ClientArmHome (hub_alarm_arm_home X) s))
      else
        emit (Notify (py ''The alarm system is not ready. Doors/windows open?'')
                (py ''Arm Failed'')) s)"

definition alarm_arm_away :: "unicode_db \<Rightarrow> 'w ext \<Rightarrow> pystr option \<Rightarrow> 'w sys \<Rightarrow> 'w sys" where
  "alarm_arm_away U X code s =
     (if \<not> py_bool (no_pin_required (entity s)) \<and> code \<noteq> user_code (entity s) then
        emit (Notify (py ''You entered the wrong arm code.'') (py ''Unable to Arm'')) s
      else if hub_alarm_ready X (world s) then
        update U X (call (Sleep 1) (time_sleep X 1) (call ClientArmAway (hub_alarm_arm_away X) s))
      else
        emit (Notify (py ''The alarm system is not ready. Doors/windows open?'')
                (py ''Unable to Arm'')) s)"


section \<open>The state-change listener and the platform setup\<close>

text \<open>
  The data of a state-changed event: the entity id and the \<^verbatim>\<open>state\<close> strings of the old
  and the new state object, each \<open>None\<close> when the event has no such entry.
\<close>

record event_data =
  entity_id :: "pystr option"
  old_state :: "pystr option"
  new_state :: "pystr option"

definition arm_event_listener :: "unicode_db \<Rightarrow> 'w ext \<Rightarrow> event_data \<Rightarrow> 'w sys \<Rightarrow> 'w sys" where
  "arm_event_listener U X event s =
     (case new_state event of
        None \<Rightarrow> s
      | Some new \<Rightarrow>
          if new = py ''unknown'' \<or> new = [] then s
          else if entity_id event = Some (py ''alarm_control_panel.visonic_alarm'') \<and>
                  old_state event \<noteq> None \<and> old_state event \<noteq> Some new then
            (let state = py_lower U new in
             if state = py ''armed_home'' \<or> state = py ''armed_away'' \<or> state = py ''disarmed''
             then
               (let offset = event_hour_offset (entity s);
                    (last_event, w') = hub_alarm_get_last_event X offset (world s);
                    s1 = emit (ClientGetLastEvent offset) (s\<lparr>world := w'\<rparr>)
                in update_last_event (fst last_event) (snd last_event) s1)
             else s)
          else s)"

text \<open>
  \<^verbatim>\<open>setup_platform\<close>: one refresh of the hub, then the entity is built. Handing the entity
  and the listener to the host framework changes nothing here.
\<close>

definition setup_platform :: "'w ext \<Rightarrow> 'w \<Rightarrow> 'w sys" where
  "setup_platform X w =
     (let w1 = hub_update X w
      in \<lparr>world = w1, trace = [HubUpdate], entity = init X w1\<rparr>)"


section \<open>Sequences of operations\<close>

text \<open>
  What the host framework and the outside world can do after the setup: poll, send one of
  the three commands with a code or without, deliver a state-changed event, store a last
  event; and the outside world may change by itself between two of these.
\<close>

datatype 'w operation =
    Update
  | UpdateLastEvent "pystr option" "pystr option"
  | AlarmDisarm "pystr option"
  | AlarmArmHome "pystr option"
  | AlarmArmAway "pystr option"
  | StateChanged event_data
  | Outside "'w \<Rightarrow> 'w"

fun step :: "unicode_db \<Rightarrow> 'w ext \<Rightarrow> 'w sys \<Rightarrow> 'w operation \<Rightarrow> 'w sys" where
  "step U X s Update = update U X s"
| "step U X s (UpdateLastEvent user timestamp) = update_last_event user timestamp s"
| "step U X s (AlarmDisarm code) = alarm_disarm U X code s"
| "step U X s (AlarmArmHome code) = alarm_arm_home U X code s"
| "step U X s (AlarmArmAway code) = alarm_arm_away U X code s"
| "step U X s (StateChanged event) = arm_event_listener U X event s"
| "step U X s (Outside f) = s\<lparr>world := f (world s)\<rparr>"

definition run :: "unicode_db \<Rightarrow> 'w ext \<Rightarrow> 'w sys \<Rightarrow> 'w operation list \<Rightarrow> 'w sys" where
  "run U X s ops = foldl (step U X) s ops"


section \<open>The specification's notions\<close>

text \<open>
  The Status Normalizer as the specification words it: no raw status gives Unknown;
  otherwise trim, upper-case and look up in the table, an unmatched string giving Unknown.
\<close>

definition normalizer :: "unicode_db \<Rightarrow> pystr option \<Rightarrow> alarm_state" where
  "normalizer U raw =
     (case raw of
        None \<Rightarrow> STATE_UNKNOWN
      | Some r \<Rightarrow>
          (case mapping (py_upper U (py_strip r)) of
             None \<Rightarrow> STATE_UNKNOWN
           | Some st \<Rightarrow> st))"

text \<open>The seven canonical states of the specification.\<close>

definition canonical_states :: "alarm_state set" where
  "canonical_states =
     {STATE_ALARM_DISARMED, STATE_ALARM_ARMED_HOME, STATE_ALARM_ARMED_AWAY, STATE_ALARM_ARMING,
      STATE_ALARM_PENDING, STATE_ALARM_TRIGGERED, STATE_UNKNOWN}"

text \<open>Log lines are not calls of a collaborator.\<close>

fun is_log :: "effect \<Rightarrow> bool" where
  "is_log (LogWarning _) = True"
| "is_log (LogDebug _) = True"
| "is_log _ = False"


section \<open>A small outside world for concrete runs\<close>

text \<open>
  A panel that holds a raw status and a ready flag, answers every command at once and
  knows one last event. The configured code is 1234 and a PIN is required.
\<close>

record panel =
  raw_state :: "pystr option"
  ready :: bool

definition demo_ext :: "panel ext" where
  "demo_ext =
     \<lparr>hub_update = (\<lambda>w. w),
      hub_alarm_state = raw_state,
      hub_alarm_ready = ready,
      hub_alarm_serial_number = (\<lambda>w. py ''A1B2C3''),
      hub_alarm_disarm = (\<lambda>w. w\<lparr>raw_state := Some (py ''Disarm'')\<rparr>),
      hub_alarm_arm_home = (\<lambda>w. w\<lparr>raw_state := Some (py '' home '')\<rparr>),
      hub_alarm_arm_away = (\<lambda>w. w\<lparr>raw_state := Some (py ''ExitDelay'')\<rparr>),
      hub_alarm_get_last_event =
        (\<lambda>offset w. ((Some (py ''Alice''), Some (py ''2024-01-01 10:00:00'')), w)),
      hub_config_user_code = Some (py ''1234''),
      hub_config_no_pin_required = Some False,
      hub_config_event_hour_offset = Some 0,
      time_sleep = (\<lambda>n w. w)\<rparr>"

text \<open>A Unicode database that leaves every non-ASCII code point as it is.\<close>

definition plain_db :: unicode_db where
  "plain_db = \<lparr>toupper_full = (\<lambda>c. [c]), lower_non_ascii = (\<lambda>s. s)\<rparr>"

definition demo_sys :: "pystr option \<Rightarrow> bool \<Rightarrow> panel sys" where
  "demo_sys raw rdy = setup_platform demo_ext \<lparr>raw_state = raw, ready = rdy\<rparr>"

text \<open>
  The demo system after a poll that found the panel armed away and after Alice's last
  event was stored; the panel is not ready.
\<close>

definition demo_armed :: "panel sys" where
  "demo_armed =
     update_last_event (Some (py ''Alice'')) (Some (py ''2024-01-01 10:00:00''))
       (update plain_db demo_ext (demo_sys (Some (py ''AWAY'')) False))"

text \<open>The demo system set up with the "no PIN required" flag; the panel is ready.\<close>

definition demo_no_pin :: "panel sys" where
  "demo_no_pin =
     setup_platform (demo_ext\<lparr>hub_config_no_pin_required := Some True\<rparr>)
       \<lparr>raw_state = Some (py ''Ready''), ready = True\<rparr>"


section \<open>Effects and the refresh\<close>

lemma emit_simps [simp]:
  "world (emit e s) = world s"
  "trace (emit e s) = trace s @ [e]"
  "entity (emit e s) = entity s"
  by (simp_all add: emit_def)

lemma call_simps [simp]:
  "world (call e f s) = f (world s)"
  "trace (call e f s) = trace s @ [e]"
  "entity (call e f s) = entity s"
  by (simp_all add: call_def)

lemma update_world: "world (update U X s) = hub_update X (world s)"
  by (simp add: update_def Let_def split: option.split)

lemma update_entity:
  "entity (update U X s) =
     (entity s)\<lparr>attr_state := normalizer U (hub_alarm_state X (hub_update X (world s)))\<rparr>"
  by (simp add: update_def normalizer_def dict_get_def Let_def split: option.split)

lemma update_attr_state:
  "attr_state (entity (update U X s)) = normalizer U (hub_alarm_state X (hub_update X (world s)))"
  by (simp add: update_def normalizer_def dict_get_def Let_def split: option.split)

lemma update_trace:
  "\<exists>logs. list_all is_log logs \<and> trace (update U X s) = trace s @ HubUpdate # logs"
proof (cases "hub_alarm_state X (hub_update X (world s))")
  case None
  then have "trace (update U X s) =
      trace s @ HubUpdate # [LogWarning (py ''Visonic raw state: '' @ py_format None)]"
    by (simp add: update_def Let_def)
  moreover have "list_all is_log [LogWarning (py ''Visonic raw state: '' @ py_format None)]"
    by simp
  ultimately show ?thesis by blast
next
  case (Some r)
  then have "trace (update U X s) =
      trace s @ HubUpdate # [LogWarning (py ''Visonic raw state: '' @ py_format (Some r)),
        LogDebug (py ''Visonic normalized state: '' @ py_upper U (py_strip r))]"
    by (simp add: update_def Let_def)
  moreover have "list_all is_log [LogWarning (py ''Visonic raw state: '' @ py_format (Some r)),
        LogDebug (py ''Visonic normalized state: '' @ py_upper U (py_strip r))]"
    by simp
  ultimately show ?thesis by blast
qed


section \<open>The table\<close>

lemma mapping_values:
  "mapping (py ''AWAY'') = Some STATE_ALARM_ARMED_AWAY"
  "mapping (py ''ARMED_AWAY'') = Some STATE_ALARM_ARMED_AWAY"
  "mapping (py ''ARM'') = Some STATE_ALARM_ARMED_AWAY"
  "mapping (py ''ARM_AWAY'') = Some STATE_ALARM_ARMED_AWAY"
  "mapping (py ''HOME'') = Some STATE_ALARM_ARMED_HOME"
  "mapping (py ''STAY'') = Some STATE_ALARM_ARMED_HOME"
  "mapping (py ''ARMED_HOME'') = Some STATE_ALARM_ARMED_HOME"
  "mapping (py ''ARM_HOME'') = Some STATE_ALARM_ARMED_HOME"
  "mapping (py ''DISARM'') = Some STATE_ALARM_DISARMED"
  "mapping (py ''DISARMED'') = Some STATE_ALARM_DISARMED"
  "mapping (py ''READY'') = Some STATE_ALARM_DISARMED"
  "mapping (py ''IDLE'') = Some STATE_ALARM_DISARMED"
  "mapping (py ''ARMING'') = Some STATE_ALARM_ARMING"
  "mapping (py ''EXITDELAY'') = Some STATE_ALARM_ARMING"
  "mapping (py ''ENTRYDELAY'') = Some STATE_ALARM_PENDING"
  "mapping (py ''PENDING'') = Some STATE_ALARM_PENDING"
  "mapping (py ''ALARM'') = Some STATE_ALARM_TRIGGERED"
  "mapping (py ''TRIGGERED'') = Some STATE_ALARM_TRIGGERED"
  by (simp_all add: mapping_def py_def)

lemma mapping_keys:
  assumes "mapping k = Some st"
  shows "k \<in> {py ''AWAY'', py ''ARMED_AWAY'', py ''ARM'', py ''ARM_AWAY'',
   py ''HOME'', py ''STAY'', py ''ARMED_HOME'', py ''ARM_HOME'',
   py ''DISARM'', py ''DISARMED'', py ''READY'', py ''IDLE'',
   py ''ARMING'', py ''EXITDELAY'', py ''ENTRYDELAY'', py ''PENDING'', py ''ALARM'', py ''TRIGGERED''}"
  using assms unfolding mapping_def by (simp split: if_splits)

lemma dom_mapping:
  "dom mapping = {py ''AWAY'', py ''ARMED_AWAY'', py ''ARM'', py ''ARM_AWAY'',
   py ''HOME'', py ''STAY'', py ''ARMED_HOME'', py ''ARM_HOME'',
   py ''DISARM'', py ''DISARMED'', py ''READY'', py ''IDLE'',
   py ''ARMING'', py ''EXITDELAY'', py ''ENTRYDELAY'', py ''PENDING'', py ''ALARM'', py ''TRIGGERED''}"
  (is "_ = ?K")
proof (rule set_eqI, rule iffI)
  fix k assume "k \<in> dom mapping"
  then show "k \<in> ?K" using mapping_keys by blast
next
  fix k assume "k \<in> ?K"
  then have "\<exists>st. mapping k = Some st"
    by (elim insertE emptyE) (simp_all only: mapping_values option.inject simp_thms)
  then show "k \<in> dom mapping" by blast
qed

lemma mapping_range: "mapping k = Some st \<Longrightarrow> st \<in> canonical_states"
  unfolding mapping_def canonical_states_def by (simp split: if_splits)

lemma normalizer_canonical: "normalizer U raw \<in> canonical_states"
  by (auto simp: normalizer_def canonical_states_def dest: mapping_range split: option.split)

lemma mapping_key_ends:
  assumes "mapping k = Some st"
  shows "k \<noteq> [] \<and> \<not> isspace (hd k) \<and> \<not> isspace (last k)"
  using assms unfolding mapping_def by (auto simp: py_def isspace_def split: if_splits)

lemma normalizer_examples:
  "normalizer U (Some (py '' away '')) = STATE_ALARM_ARMED_AWAY"
  "normalizer U (Some (py ''AWAY'')) = STATE_ALARM_ARMED_AWAY"
  "normalizer U (Some (py ''EXITDELAY'')) = STATE_ALARM_ARMING"
  "normalizer U (Some (py ''ExitDelay'')) = STATE_ALARM_ARMING"
  "normalizer U (Some (py ''Disarm'')) = STATE_ALARM_DISARMED"
  "normalizer U (Some (py ''foobar'')) = STATE_UNKNOWN"
  "normalizer U None = STATE_UNKNOWN"
  by (simp_all add: normalizer_def py_strip_def py_upper_def isspace_def ascii_upper_def
        mapping_def py_def)


section \<open>Case and padding\<close>

lemma dropWhile_padding:
  assumes "list_all P l" "v \<noteq> []" "\<not> P (hd v)"
  shows "dropWhile P (l @ v @ r) = v @ r"
proof -
  from assms(2) obtain x xs where v: "v = x # xs" by (cases v) auto
  with assms(3) have "\<not> P x" by simp
  with assms(1) show ?thesis
    by (induction l) (simp_all add: v)
qed

lemma py_strip_padding:
  assumes "list_all isspace l" "list_all isspace r" "v \<noteq> []"
    "\<not> isspace (hd v)" "\<not> isspace (last v)"
  shows "py_strip (l @ v @ r) = v"
proof -
  have "dropWhile isspace (l @ v @ r) = v @ r"
    using assms(1,3,4) by (rule dropWhile_padding)
  moreover have "dropWhile isspace (rev r @ rev v @ []) = rev v @ []"
    using assms(2,3,5) by (intro dropWhile_padding) (simp_all add: hd_rev list_all_iff)
  ultimately show ?thesis by (simp add: py_strip_def)
qed

lemma py_upper_ascii:
  "list_all (\<lambda>c. c < 128) v \<Longrightarrow> py_upper U v = map ascii_upper v"
  by (induction v) (simp_all add: py_upper_def)

lemma isspace_ascii_upper: "isspace (ascii_upper c) = isspace c"
  by (auto simp: isspace_def ascii_upper_def)

lemma normalizer_any_case_any_padding:
  assumes key: "mapping k = Some st"
    and pad: "list_all isspace l" "list_all isspace r"
    and ascii: "list_all (\<lambda>c. c < 128) v"
    and variant: "map ascii_upper v = k"
  shows "normalizer U (Some (l @ v @ r)) = st"
proof -
  from mapping_key_ends [OF key]
  have k: "k \<noteq> []" "\<not> isspace (hd k)" "\<not> isspace (last k)" by simp_all
  from k(1) variant have v: "v \<noteq> []" by auto
  have "hd k = ascii_upper (hd v)" "last k = ascii_upper (last v)"
    using v variant by (auto simp: hd_map last_map)
  with k have "\<not> isspace (hd v)" "\<not> isspace (last v)"
    by (simp_all add: isspace_ascii_upper)
  with pad v have "py_strip (l @ v @ r) = v" by (simp add: py_strip_padding)
  with ascii variant key show ?thesis
    by (simp add: normalizer_def py_upper_ascii)
qed


section \<open>The concrete world\<close>

lemma demo_ext_simps [simp]:
  "hub_update demo_ext w = w"
  "hub_alarm_state demo_ext w = raw_state w"
  "hub_alarm_ready demo_ext w = ready w"
  "hub_alarm_disarm demo_ext w = w\<lparr>raw_state := Some (py ''Disarm'')\<rparr>"
  "hub_alarm_arm_home demo_ext w = w\<lparr>raw_state := Some (py '' home '')\<rparr>"
  "hub_alarm_arm_away demo_ext w = w\<lparr>raw_state := Some (py ''ExitDelay'')\<rparr>"
  "hub_alarm_get_last_event demo_ext offset w =
     ((Some (py ''Alice''), Some (py ''2024-01-01 10:00:00'')), w)"
  "time_sleep demo_ext n w = w"
  by (simp_all add: demo_ext_def)

lemma demo_entity [simp]:
  "entity (demo_sys raw rdy) =
     \<lparr>attr_state = STATE_UNKNOWN, user_code = Some (py ''1234''), no_pin_required = Some False,
      changed_by = None, changed_timestamp = None, event_hour_offset = Some 0,
      ident = py ''A1B2C3''\<rparr>"
  "world (demo_sys raw rdy) = \<lparr>raw_state = raw, ready = rdy\<rparr>"
  "trace (demo_sys raw rdy) = [HubUpdate]"
  by (simp_all add: demo_sys_def setup_platform_def init_def demo_ext_def)

lemma demo_armed_simps [simp]:
  "entity demo_armed =
     \<lparr>attr_state = STATE_ALARM_ARMED_AWAY, user_code = Some (py ''1234''),
      no_pin_required = Some False, changed_by = Some (py ''Alice''),
      changed_timestamp = Some (py ''2024-01-01 10:00:00''), event_hour_offset = Some 0,
      ident = py ''A1B2C3''\<rparr>"
  "world demo_armed = \<lparr>raw_state = Some (py ''AWAY''), ready = False\<rparr>"
  by (simp_all add: demo_armed_def update_last_event_def update_entity update_world
      normalizer_examples)

lemma demo_no_pin_simps [simp]:
  "entity demo_no_pin =
     \<lparr>attr_state = STATE_UNKNOWN, user_code = Some (py ''1234''), no_pin_required = Some True,
      changed_by = None, changed_timestamp = None, event_hour_offset = Some 0,
      ident = py ''A1B2C3''\<rparr>"
  "world demo_no_pin = \<lparr>raw_state = Some (py ''Ready''), ready = True\<rparr>"
  "trace demo_no_pin = [HubUpdate]"
  by (simp_all add: demo_no_pin_def setup_platform_def init_def demo_ext_def)


section \<open>The commands, branch by branch\<close>

lemma disarm_proceeds:
  assumes "py_bool (no_pin_required (entity s)) \<or> code = user_code (entity s)"
  shows "alarm_disarm U X code s =
    update U X (call (Sleep 1) (time_sleep X 1) (call ClientDisarm (hub_alarm_disarm X) s))"
  using assms by (auto simp: alarm_disarm_def)

lemma arm_home_proceeds:
  assumes "py_bool (no_pin_required (entity s)) \<or> code = user_code (entity s)"
    and "hub_alarm_ready X (world s)"
  shows "alarm_arm_home U X code s =
    update U X (call (Sleep 1) (time_sleep X 1) (call ClientArmHome (hub_alarm_arm_home X) s))"
  using assms by (auto simp: alarm_arm_home_def)

lemma arm_away_proceeds:
  assumes "py_bool (no_pin_required (entity s)) \<or> code = user_code (entity s)"
    and "hub_alarm_ready X (world s)"
  shows "alarm_arm_away U X code s =
    update U X (call (Sleep 1) (time_sleep X 1) (call ClientArmAway (hub_alarm_arm_away X) s))"
  using assms by (auto simp: alarm_arm_away_def)

lemma command_then_refresh_trace:
  "\<exists>logs. list_all is_log logs \<and>
     trace (update U X (call (Sleep 1) g (call c f s))) = trace s @ [c, Sleep 1, HubUpdate] @ logs"
proof -
  obtain logs where "list_all is_log logs"
    and "trace (update U X (call (Sleep 1) g (call c f s))) =
         trace (call (Sleep 1) g (call c f s)) @ HubUpdate # logs"
    using update_trace by blast
  then show ?thesis by auto
qed

lemma wrong_code_disarm:
  assumes "\<not> py_bool (no_pin_required (entity s))" and "code \<noteq> user_code (entity s)"
  shows "alarm_disarm U X code s =
    emit (Notify (py ''You entered the wrong disarm code.'') (py ''Disarm Failed'')) s"
  using assms by (simp add: alarm_disarm_def)

lemma wrong_code_arm_home:
  assumes "\<not> py_bool (no_pin_required (entity s))" and "code \<noteq> user_code (entity s)"
  shows "alarm_arm_home U X code s =
    emit (Notify (py ''You entered the wrong arm code.'') (py ''Arm Failed'')) s"
  using assms by (simp add: alarm_arm_home_def)

lemma wrong_code_arm_away:
  assumes "\<not> py_bool (no_pin_required (entity s))" and "code \<noteq> user_code (entity s)"
  shows "alarm_arm_away U X code s =
    emit (Notify (py ''You entered the wrong arm code.'') (py ''Unable to Arm'')) s"
  using assms by (simp add: alarm_arm_away_def)

lemma not_ready_arm_home:
  assumes "py_bool (no_pin_required (entity s)) \<or> code = user_code (entity s)"
    and "\<not> hub_alarm_ready X (world s)"
  shows "alarm_arm_home U X code s =
    emit (Notify (py ''The alarm system is not ready. Doors/windows open?'') (py ''Arm Failed'')) s"
  using assms by (auto simp: alarm_arm_home_def)

lemma not_ready_arm_away:
  assumes "py_bool (no_pin_required (entity s)) \<or> code = user_code (entity s)"
    and "\<not> hub_alarm_ready X (world s)"
  shows "alarm_arm_away U X code s =
    emit (Notify (py ''The alarm system is not ready. Doors/windows open?'')
      (py ''Unable to Arm'')) s"
  using assms by (auto simp: alarm_arm_away_def)


section \<open>Runs\<close>

lemma step_attr_state:
  "attr_state (entity (step U X s op)) = attr_state (entity s) \<or>
   attr_state (entity (step U X s op)) = normalizer U (hub_alarm_state X (world (step U X s op)))"
proof (cases op)
  case Update
  then show ?thesis by (simp add: update_attr_state update_world)
next
  case (UpdateLastEvent user timestamp)
  then show ?thesis by (simp add: update_last_event_def)
next
  case (AlarmDisarm code)
  then show ?thesis
    by (simp add: alarm_disarm_def update_attr_state update_world)
next
  case (AlarmArmHome code)
  then show ?thesis
    by (simp add: alarm_arm_home_def update_attr_state update_world)
next
  case (AlarmArmAway code)
  then show ?thesis
    by (simp add: alarm_arm_away_def update_attr_state update_world)
next
  case (StateChanged event)
  then show ?thesis
    by (simp add: update_last_event_def arm_event_listener_def Let_def
        split: option.split prod.split)
next
  case (Outside f)
  then show ?thesis by simp
qed

lemma step_canonical:
  assumes "attr_state (entity s) \<in> canonical_states"
  shows "attr_state (entity (step U X s op)) \<in> canonical_states"
  using step_attr_state [of U X s op] assms normalizer_canonical [of U] by metis

lemma run_canonical:
  assumes "attr_state (entity s) \<in> canonical_states"
  shows "attr_state (entity (run U X s ops)) \<in> canonical_states"
  using assms unfolding run_def
  by (induction ops arbitrary: s) (simp_all add: step_canonical)

lemma setup_canonical: "attr_state (entity (setup_platform X w)) \<in> canonical_states"
  by (simp add: setup_platform_def init_def canonical_states_def Let_def)


section \<open>The claims\<close>

text \<open>
  C1. Let \<^verbatim>\<open>update\<close> read a raw status that is a string. For each of the eighteen keys of
  the table, listed here with its documented state (AWAY, ARMED_AWAY, ARM, ARM_AWAY:
  armed-away; HOME, STAY, ARMED_HOME, ARM_HOME: armed-home; DISARM, DISARMED, READY, IDLE:
  disarmed; ARMING, EXITDELAY: arming; ENTRYDELAY, PENDING: pending; ALARM, TRIGGERED:
  triggered): if the trimmed, upper-cased raw status is that key, or the raw status is an
  ASCII spelling of that key in any mix of upper and lower case with any whitespace before
  and after it, then \<^verbatim>\<open>update\<close> stores that state. These eighteen are all the keys of the
  table, and for any key of the table the state stored is the table's value. At the
  concrete inputs below, \<^verbatim>\<open>" away "\<close> and \<^verbatim>\<open>"Arm_Away"\<close> give armed-away and
  \<^verbatim>\<open>"EXITDELAY"\<close> gives arming.
\<close>

theorem update_known_status:
  assumes raw: "hub_alarm_state X (hub_update X (world s)) = Some raw"
  shows "((k, st) \<in> set
            [(py ''AWAY'', STATE_ALARM_ARMED_AWAY),
             (py ''ARMED_AWAY'', STATE_ALARM_ARMED_AWAY),
             (py ''ARM'', STATE_ALARM_ARMED_AWAY),
             (py ''ARM_AWAY'', STATE_ALARM_ARMED_AWAY),
             (py ''HOME'', STATE_ALARM_ARMED_HOME),
             (py ''STAY'', STATE_ALARM_ARMED_HOME),
             (py ''ARMED_HOME'', STATE_ALARM_ARMED_HOME),
             (py ''ARM_HOME'', STATE_ALARM_ARMED_HOME),
             (py ''DISARM'', STATE_ALARM_DISARMED),
             (py ''DISARMED'', STATE_ALARM_DISARMED),
             (py ''READY'', STATE_ALARM_DISARMED),
             (py ''IDLE'', STATE_ALARM_DISARMED),
             (py ''ARMING'', STATE_ALARM_ARMING),
             (py ''EXITDELAY'', STATE_ALARM_ARMING),
             (py ''ENTRYDELAY'', STATE_ALARM_PENDING),
             (py ''PENDING'', STATE_ALARM_PENDING),
             (py ''ALARM'', STATE_ALARM_TRIGGERED),
             (py ''TRIGGERED'', STATE_ALARM_TRIGGERED)] \<longrightarrow>
          (py_upper U (py_strip raw) = k \<or>
           (map ascii_upper v = k \<and> list_all (\<lambda>c. c < 128) v \<and>
            list_all isspace l \<and> list_all isspace r \<and> raw = l @ v @ r)) \<longrightarrow>
          attr_state (entity (update U X s)) = st)
       \<and> dom mapping =
           {py ''AWAY'', py ''ARMED_AWAY'', py ''ARM'', py ''ARM_AWAY'',
            py ''HOME'', py ''STAY'', py ''ARMED_HOME'', py ''ARM_HOME'',
            py ''DISARM'', py ''DISARMED'', py ''READY'', py ''IDLE'',
            py ''ARMING'', py ''EXITDELAY'', py ''ENTRYDELAY'', py ''PENDING'',
            py ''ALARM'', py ''TRIGGERED''}
       \<and> (mapping (py_upper U (py_strip raw)) = Some st \<longrightarrow>
            attr_state (entity (update U X s)) = st)
       \<and> (mapping k = Some st \<and> map ascii_upper v = k \<and> list_all (\<lambda>c. c < 128) v \<and>
          list_all isspace l \<and> list_all isspace r \<and> raw = l @ v @ r \<longrightarrow>
            attr_state (entity (update U X s)) = st)"
  (is "(?listed \<longrightarrow> ?exact \<or> ?variant \<longrightarrow> ?stored) \<and> ?keys \<and> (?key \<longrightarrow> _) \<and> (?tabled \<longrightarrow> _)")
proof -
  have exact: ?stored if "mapping (py_upper U (py_strip raw)) = Some st"
    using raw that by (simp add: update_attr_state normalizer_def)
  have variant: ?stored if "mapping k = Some st" ?variant
  proof -
    from that have "normalizer U (Some raw) = st"
      using normalizer_any_case_any_padding [of k st l r v U] by blast
    with raw show ?thesis by (simp add: update_attr_state)
  qed
  have listed: "mapping k = Some st" if ?listed
    using that by (auto simp: mapping_values)
  have ?stored if ?listed "?exact \<or> ?variant"
    using that(2) listed [OF that(1)] exact variant by blast
  moreover have ?keys by (rule dom_mapping)
  moreover have ?stored if ?tabled
    using that variant by blast
  ultimately show ?thesis using exact by blast
qed

theorem update_known_status_witness:
  "hub_alarm_state demo_ext (hub_update demo_ext (world (demo_sys (Some (py '' away '')) True)))
     = Some (py '' away '')
   \<and> map ascii_upper (py ''away'') = py ''AWAY''
   \<and> list_all (\<lambda>c. c < 128) (py ''away'')
   \<and> list_all isspace (py '' '')
   \<and> py '' away '' = py '' '' @ py ''away'' @ py '' ''
   \<and> attr_state (entity (update plain_db demo_ext (demo_sys (Some (py '' away '')) True)))
     = STATE_ALARM_ARMED_AWAY
   \<and> hub_alarm_state demo_ext (hub_update demo_ext (world (demo_sys (Some (py ''EXITDELAY'')) True)))
     = Some (py ''EXITDELAY'')
   \<and> py_upper plain_db (py_strip (py ''EXITDELAY'')) = py ''EXITDELAY''
   \<and> attr_state (entity (update plain_db demo_ext (demo_sys (Some (py ''EXITDELAY'')) True)))
     = STATE_ALARM_ARMING
   \<and> hub_alarm_state demo_ext (hub_update demo_ext (world (demo_sys (Some (py ''Arm_Away'')) True)))
     = Some (py ''Arm_Away'')
   \<and> py_upper plain_db (py_strip (py ''Arm_Away'')) = py ''ARM_AWAY''
   \<and> attr_state (entity (update plain_db demo_ext (demo_sys (Some (py ''Arm_Away'')) True)))
     = STATE_ALARM_ARMED_AWAY"
proof -
  have raw1: "hub_alarm_state demo_ext
      (hub_update demo_ext (world (demo_sys (Some (py '' away '')) True))) = Some (py '' away '')"
    by simp
  have raw2: "hub_alarm_state demo_ext
      (hub_update demo_ext (world (demo_sys (Some (py ''EXITDELAY'')) True))) =
      Some (py ''EXITDELAY'')"
    by simp
  have raw3: "hub_alarm_state demo_ext
      (hub_update demo_ext (world (demo_sys (Some (py ''Arm_Away'')) True))) =
      Some (py ''Arm_Away'')"
    by simp
  have variant: "map ascii_upper (py ''away'') = py ''AWAY''
      \<and> list_all (\<lambda>c. c < 128) (py ''away'')
      \<and> list_all isspace (py '' '')
      \<and> py '' away '' = py '' '' @ py ''away'' @ py '' ''"
    by (simp add: py_def ascii_upper_def isspace_def)
  have exact: "py_upper plain_db (py_strip (py ''EXITDELAY'')) = py ''EXITDELAY''"
    "py_upper plain_db (py_strip (py ''Arm_Away'')) = py ''ARM_AWAY''"
    by (simp_all add: py_strip_def py_upper_def isspace_def ascii_upper_def py_def)
  from update_known_status [OF raw1, where U = plain_db and k = "py ''AWAY''"
      and v = "py ''away''" and l = "py '' ''" and r = "py '' ''"
      and st = STATE_ALARM_ARMED_AWAY, THEN conjunct1] variant
  have away: "attr_state (entity (update plain_db demo_ext (demo_sys (Some (py '' away '')) True)))
      = STATE_ALARM_ARMED_AWAY"
    by simp
  from update_known_status [OF raw2, where U = plain_db and k = "py ''EXITDELAY''"
      and st = STATE_ALARM_ARMING, THEN conjunct1] exact(1)
  have exitdelay: "attr_state (entity (update plain_db demo_ext
      (demo_sys (Some (py ''EXITDELAY'')) True))) = STATE_ALARM_ARMING"
    by simp
  from update_known_status [OF raw3, where U = plain_db and k = "py ''ARM_AWAY''"
      and st = STATE_ALARM_ARMED_AWAY, THEN conjunct1] exact(2)
  have arm_away: "attr_state (entity (update plain_db demo_ext
      (demo_sys (Some (py ''Arm_Away'')) True))) = STATE_ALARM_ARMED_AWAY"
    by simp
  from raw1 raw2 raw3 variant exact away exitdelay arm_away show ?thesis
    by (simp only: simp_thms)
qed

text \<open>
  C2. When the raw status is \<^verbatim>\<open>None\<close>, \<^verbatim>\<open>update\<close> stores Unknown and does nothing after the
  hub refresh but write the warning line: no normalized status is computed or logged. When
  it is a string whose trimmed, upper-cased form is no key of the table, \<^verbatim>\<open>update\<close> stores
  Unknown as well. \<^verbatim>\<open>update\<close> has no failing branch, so no error is raised in either case.
\<close>

theorem update_unknown_status:
  "(hub_alarm_state X (hub_update X (world s)) = None \<longrightarrow>
      attr_state (entity (update U X s)) = STATE_UNKNOWN \<and>
      trace (update U X s) = trace s @ [HubUpdate, LogWarning (py ''Visonic raw state: None'')])
   \<and> (hub_alarm_state X (hub_update X (world s)) = Some raw \<and>
        py_upper U (py_strip raw) \<notin> dom mapping \<longrightarrow>
      attr_state (entity (update U X s)) = STATE_UNKNOWN)"
proof (intro conjI impI)
  assume none: "hub_alarm_state X (hub_update X (world s)) = None"
  then show "attr_state (entity (update U X s)) = STATE_UNKNOWN"
    by (simp add: update_attr_state normalizer_def)
  from none show "trace (update U X s) =
      trace s @ [HubUpdate, LogWarning (py ''Visonic raw state: None'')]"
    by (simp add: update_def Let_def py_format_def py_def)
next
  assume "hub_alarm_state X (hub_update X (world s)) = Some raw \<and>
      py_upper U (py_strip raw) \<notin> dom mapping"
  then show "attr_state (entity (update U X s)) = STATE_UNKNOWN"
    by (auto simp: update_attr_state normalizer_def split: option.split)
qed

theorem update_unknown_status_witness:
  "attr_state (entity demo_armed) = STATE_ALARM_ARMED_AWAY
   \<and> hub_alarm_state demo_ext (hub_update demo_ext
        (world (demo_armed\<lparr>world := \<lparr>raw_state = None, ready = False\<rparr>\<rparr>))) = None
   \<and> attr_state (entity (update plain_db demo_ext
        (demo_armed\<lparr>world := \<lparr>raw_state = None, ready = False\<rparr>\<rparr>))) = STATE_UNKNOWN
   \<and> trace (update plain_db demo_ext
        (demo_armed\<lparr>world := \<lparr>raw_state = None, ready = False\<rparr>\<rparr>)) =
       trace demo_armed @ [HubUpdate, LogWarning (py ''Visonic raw state: None'')]
   \<and> hub_alarm_state demo_ext (hub_update demo_ext
        (world (demo_armed\<lparr>world := \<lparr>raw_state = Some (py ''foobar''), ready = False\<rparr>\<rparr>)))
       = Some (py ''foobar'')
   \<and> py_upper plain_db (py_strip (py ''foobar'')) \<notin> dom mapping
   \<and> attr_state (entity (update plain_db demo_ext
        (demo_armed\<lparr>world := \<lparr>raw_state = Some (py ''foobar''), ready = False\<rparr>\<rparr>)))
       = STATE_UNKNOWN"
proof -
  have key: "py_upper plain_db (py_strip (py ''foobar'')) \<notin> dom mapping"
    by (simp add: py_strip_def py_upper_def isspace_def ascii_upper_def mapping_def py_def dom_def)
  from update_unknown_status [where X = demo_ext and U = plain_db
      and s = "demo_armed\<lparr>world := \<lparr>raw_state = None, ready = False\<rparr>\<rparr>"]
    update_unknown_status [where X = demo_ext and U = plain_db and raw = "py ''foobar''"
      and s = "demo_armed\<lparr>world := \<lparr>raw_state = Some (py ''foobar''), ready = False\<rparr>\<rparr>"]
    key
  show ?thesis by simp
qed

text \<open>
  C3. When the code gate passes, \<^verbatim>\<open>alarm_disarm\<close> adds to the effects exactly the client's
  disarm, then the one-unit sleep, then one refresh of the hub, then only the log lines of
  that refresh; the state held afterwards is the Normalizer's value for the raw status
  read by that refresh. When moreover the panel is ready, the same holds of
  \<^verbatim>\<open>alarm_arm_home\<close> and \<^verbatim>\<open>alarm_arm_away\<close> with the client's arm commands.
\<close>

theorem command_effects_in_order:
  assumes gate: "py_bool (no_pin_required (entity s)) \<or> code = user_code (entity s)"
  shows "(\<exists>logs. list_all is_log logs \<and>
            trace (alarm_disarm U X code s) = trace s @ [ClientDisarm, Sleep 1, HubUpdate] @ logs)
       \<and> attr_state (entity (alarm_disarm U X code s)) =
            normalizer U (hub_alarm_state X
              (hub_update X (time_sleep X 1 (hub_alarm_disarm X (world s)))))
       \<and> (hub_alarm_ready X (world s) \<longrightarrow>
           (\<exists>logs. list_all is_log logs \<and>
              trace (alarm_arm_home U X code s) =
                trace s @ [ClientArmHome, Sleep 1, HubUpdate] @ logs)
         \<and> attr_state (entity (alarm_arm_home U X code s)) =
              normalizer U (hub_alarm_state X
                (hub_update X (time_sleep X 1 (hub_alarm_arm_home X (world s)))))
         \<and> (\<exists>logs. list_all is_log logs \<and>
              trace (alarm_arm_away U X code s) =
                trace s @ [ClientArmAway, Sleep 1, HubUpdate] @ logs)
         \<and> attr_state (entity (alarm_arm_away U X code s)) =
              normalizer U (hub_alarm_state X
                (hub_update X (time_sleep X 1 (hub_alarm_arm_away X (world s))))))"
proof (intro conjI impI)
  show "\<exists>logs. list_all is_log logs \<and>
      trace (alarm_disarm U X code s) = trace s @ [ClientDisarm, Sleep 1, HubUpdate] @ logs"
    by (simp only: disarm_proceeds [OF gate] command_then_refresh_trace)
  show "attr_state (entity (alarm_disarm U X code s)) =
      normalizer U (hub_alarm_state X (hub_update X (time_sleep X 1 (hub_alarm_disarm X (world s)))))"
    by (simp add: disarm_proceeds [OF gate] update_attr_state)
next
  assume rdy: "hub_alarm_ready X (world s)"
  show "\<exists>logs. list_all is_log logs \<and>
      trace (alarm_arm_home U X code s) = trace s @ [ClientArmHome, Sleep 1, HubUpdate] @ logs"
    by (simp only: arm_home_proceeds [OF gate rdy] command_then_refresh_trace)
  show "attr_state (entity (alarm_arm_home U X code s)) =
      normalizer U (hub_alarm_state X
        (hub_update X (time_sleep X 1 (hub_alarm_arm_home X (world s)))))"
    by (simp add: arm_home_proceeds [OF gate rdy] update_attr_state)
  show "\<exists>logs. list_all is_log logs \<and>
      trace (alarm_arm_away U X code s) = trace s @ [ClientArmAway, Sleep 1, HubUpdate] @ logs"
    by (simp only: arm_away_proceeds [OF gate rdy] command_then_refresh_trace)
  show "attr_state (entity (alarm_arm_away U X code s)) =
      normalizer U (hub_alarm_state X
        (hub_update X (time_sleep X 1 (hub_alarm_arm_away X (world s)))))"
    by (simp add: arm_away_proceeds [OF gate rdy] update_attr_state)
qed

theorem command_effects_in_order_witness:
  "(py_bool (no_pin_required (entity (demo_sys None True))) \<or>
      Some (py ''1234'') = user_code (entity (demo_sys None True)))
   \<and> hub_alarm_ready demo_ext (world (demo_sys None True))
   \<and> (\<exists>logs. list_all is_log logs \<and>
         trace (alarm_arm_home plain_db demo_ext (Some (py ''1234'')) (demo_sys None True)) =
           trace (demo_sys None True) @ [ClientArmHome, Sleep 1, HubUpdate] @ logs)
   \<and> attr_state (entity (alarm_arm_home plain_db demo_ext (Some (py ''1234''))
        (demo_sys None True))) = STATE_ALARM_ARMED_HOME"
proof -
  have gate: "py_bool (no_pin_required (entity (demo_sys None True))) \<or>
      Some (py ''1234'') = user_code (entity (demo_sys None True))"
    by simp
  have rdy: "hub_alarm_ready demo_ext (world (demo_sys None True))"
    by simp
  have norm: "normalizer plain_db (Some (py '' home '')) = STATE_ALARM_ARMED_HOME"
    by (simp add: normalizer_def py_strip_def py_upper_def isspace_def ascii_upper_def
        mapping_def py_def)
  from command_effects_in_order [OF gate, of plain_db demo_ext] gate rdy norm show ?thesis
    by simp
qed

text \<open>
  C4. When a PIN is required and the code given differs from the configured one, each of
  the three commands adds exactly one effect, its failure notice, and leaves the outside
  world as it was: no client command, no sleep, no refresh.
\<close>

theorem wrong_code_rejected:
  assumes pin: "\<not> py_bool (no_pin_required (entity s))"
    and wrong: "code \<noteq> user_code (entity s)"
  shows "trace (alarm_disarm U X code s) =
           trace s @ [Notify (py ''You entered the wrong disarm code.'') (py ''Disarm Failed'')]
       \<and> world (alarm_disarm U X code s) = world s
       \<and> trace (alarm_arm_home U X code s) =
           trace s @ [Notify (py ''You entered the wrong arm code.'') (py ''Arm Failed'')]
       \<and> world (alarm_arm_home U X code s) = world s
       \<and> trace (alarm_arm_away U X code s) =
           trace s @ [Notify (py ''You entered the wrong arm code.'') (py ''Unable to Arm'')]
       \<and> world (alarm_arm_away U X code s) = world s"
  by (simp add: wrong_code_disarm [OF pin wrong] wrong_code_arm_home [OF pin wrong]
      wrong_code_arm_away [OF pin wrong])

theorem wrong_code_rejected_witness:
  "\<not> py_bool (no_pin_required (entity demo_armed))
   \<and> Some (py ''0000'') \<noteq> user_code (entity demo_armed)
   \<and> trace (alarm_disarm plain_db demo_ext (Some (py ''0000'')) demo_armed) =
       trace demo_armed @
         [Notify (py ''You entered the wrong disarm code.'') (py ''Disarm Failed'')]
   \<and> world (alarm_disarm plain_db demo_ext (Some (py ''0000'')) demo_armed) = world demo_armed
   \<and> trace (alarm_arm_home plain_db demo_ext None demo_armed) =
       trace demo_armed @ [Notify (py ''You entered the wrong arm code.'') (py ''Arm Failed'')]"
proof -
  have pin: "\<not> py_bool (no_pin_required (entity demo_armed))"
    by (simp add: py_bool_def)
  have wrong: "Some (py ''0000'') \<noteq> user_code (entity demo_armed)"
    by (simp add: py_def)
  have absent: "None \<noteq> user_code (entity demo_armed)"
    by simp
  from wrong_code_rejected [OF pin wrong, of plain_db demo_ext] wrong_code_rejected [OF pin absent, of plain_db demo_ext]
    pin wrong
  show ?thesis by simp
qed

text \<open>
  C5. When the code gate passes and the panel is not ready, \<^verbatim>\<open>alarm_arm_home\<close> and
  \<^verbatim>\<open>alarm_arm_away\<close> add exactly one effect, the "not ready" notice, and leave the outside
  world as it was: no arm command, no sleep, no refresh.
\<close>

theorem not_ready_rejected:
  assumes gate: "py_bool (no_pin_required (entity s)) \<or> code = user_code (entity s)"
    and not_ready: "\<not> hub_alarm_ready X (world s)"
  shows "trace (alarm_arm_home U X code s) =
           trace s @ [Notify (py ''The alarm system is not ready. Doors/windows open?'')
                        (py ''Arm Failed'')]
       \<and> world (alarm_arm_home U X code s) = world s
       \<and> trace (alarm_arm_away U X code s) =
           trace s @ [Notify (py ''The alarm system is not ready. Doors/windows open?'')
                        (py ''Unable to Arm'')]
       \<and> world (alarm_arm_away U X code s) = world s"
  by (simp add: not_ready_arm_home [OF gate not_ready] not_ready_arm_away [OF gate not_ready])

theorem not_ready_rejected_witness:
  "(py_bool (no_pin_required (entity demo_armed)) \<or>
      Some (py ''1234'') = user_code (entity demo_armed))
   \<and> \<not> hub_alarm_ready demo_ext (world demo_armed)
   \<and> trace (alarm_arm_home plain_db demo_ext (Some (py ''1234'')) demo_armed) =
       trace demo_armed @ [Notify (py ''The alarm system is not ready. Doors/windows open?'')
                             (py ''Arm Failed'')]
   \<and> trace (alarm_arm_away plain_db demo_ext (Some (py ''1234'')) demo_armed) =
       trace demo_armed @ [Notify (py ''The alarm system is not ready. Doors/windows open?'')
                             (py ''Unable to Arm'')]
   \<and> world (alarm_arm_away plain_db demo_ext (Some (py ''1234'')) demo_armed) =
       world demo_armed"
proof -
  have gate: "py_bool (no_pin_required (entity demo_armed)) \<or>
      Some (py ''1234'') = user_code (entity demo_armed)"
    by simp
  have not_ready: "\<not> hub_alarm_ready demo_ext (world demo_armed)"
    by simp
  from not_ready_rejected [OF gate not_ready, of plain_db] gate not_ready show ?thesis
    by simp
qed

text \<open>
  C6. When the "no PIN required" flag is set, each command does with any code what it does
  with no code at all, and it proceeds: \<^verbatim>\<open>alarm_disarm\<close> calls the client, and the two arm
  commands call the client when the panel is ready and give the "not ready" notice when
  it is not; the wrong-code notice never appears.
\<close>

theorem no_pin_skips_code_check:
  assumes no_pin: "py_bool (no_pin_required (entity s))"
  shows "alarm_disarm U X code s = alarm_disarm U X None s
       \<and> alarm_arm_home U X code s = alarm_arm_home U X None s
       \<and> alarm_arm_away U X code s = alarm_arm_away U X None s
       \<and> (\<exists>logs. list_all is_log logs \<and>
            trace (alarm_disarm U X code s) = trace s @ [ClientDisarm, Sleep 1, HubUpdate] @ logs)
       \<and> (hub_alarm_ready X (world s) \<longrightarrow>
            (\<exists>logs. list_all is_log logs \<and>
               trace (alarm_arm_home U X code s) =
                 trace s @ [ClientArmHome, Sleep 1, HubUpdate] @ logs)
          \<and> (\<exists>logs. list_all is_log logs \<and>
               trace (alarm_arm_away U X code s) =
                 trace s @ [ClientArmAway, Sleep 1, HubUpdate] @ logs))
       \<and> (\<not> hub_alarm_ready X (world s) \<longrightarrow>
            trace (alarm_arm_home U X code s) =
              trace s @ [Notify (py ''The alarm system is not ready. Doors/windows open?'')
                           (py ''Arm Failed'')]
          \<and> trace (alarm_arm_away U X code s) =
              trace s @ [Notify (py ''The alarm system is not ready. Doors/windows open?'')
                           (py ''Unable to Arm'')])"
proof -
  have gate: "py_bool (no_pin_required (entity s)) \<or> c = user_code (entity s)" for c
    using no_pin by simp
  have "alarm_disarm U X code s = alarm_disarm U X None s"
    by (simp add: disarm_proceeds [OF gate])
  moreover have "alarm_arm_home U X code s = alarm_arm_home U X None s"
    using no_pin by (simp add: alarm_arm_home_def)
  moreover have "alarm_arm_away U X code s = alarm_arm_away U X None s"
    using no_pin by (simp add: alarm_arm_away_def)
  moreover have "\<exists>logs. list_all is_log logs \<and>
      trace (alarm_disarm U X code s) = trace s @ [ClientDisarm, Sleep 1, HubUpdate] @ logs"
    by (simp only: disarm_proceeds [OF gate] command_then_refresh_trace)
  moreover have "\<exists>logs. list_all is_log logs \<and>
      trace (alarm_arm_home U X code s) = trace s @ [ClientArmHome, Sleep 1, HubUpdate] @ logs"
    if "hub_alarm_ready X (world s)"
    by (simp only: arm_home_proceeds [OF gate that] command_then_refresh_trace)
  moreover have "\<exists>logs. list_all is_log logs \<and>
      trace (alarm_arm_away U X code s) = trace s @ [ClientArmAway, Sleep 1, HubUpdate] @ logs"
    if "hub_alarm_ready X (world s)"
    by (simp only: arm_away_proceeds [OF gate that] command_then_refresh_trace)
  moreover have "trace (alarm_arm_home U X code s) =
      trace s @ [Notify (py ''The alarm system is not ready. Doors/windows open?'')
                   (py ''Arm Failed'')]"
    if "\<not> hub_alarm_ready X (world s)"
    by (simp add: not_ready_arm_home [OF gate that])
  moreover have "trace (alarm_arm_away U X code s) =
      trace s @ [Notify (py ''The alarm system is not ready. Doors/windows open?'')
                   (py ''Unable to Arm'')]"
    if "\<not> hub_alarm_ready X (world s)"
    by (simp add: not_ready_arm_away [OF gate that])
  ultimately show ?thesis by blast
qed

theorem no_pin_skips_code_check_witness:
  "py_bool (no_pin_required (entity demo_no_pin))
   \<and> hub_alarm_ready demo_ext (world demo_no_pin)
   \<and> alarm_disarm plain_db demo_ext (Some (py ''0000'')) demo_no_pin =
       alarm_disarm plain_db demo_ext None demo_no_pin
   \<and> (\<exists>logs. list_all is_log logs \<and>
         trace (alarm_disarm plain_db demo_ext None demo_no_pin) =
           trace demo_no_pin @ [ClientDisarm, Sleep 1, HubUpdate] @ logs)
   \<and> (\<exists>logs. list_all is_log logs \<and>
         trace (alarm_arm_away plain_db demo_ext (Some (py ''0000'')) demo_no_pin) =
           trace demo_no_pin @ [ClientArmAway, Sleep 1, HubUpdate] @ logs)"
proof -
  have no_pin: "py_bool (no_pin_required (entity demo_no_pin))"
    by (simp add: py_bool_def)
  have rdy: "hub_alarm_ready demo_ext (world demo_no_pin)"
    by simp
  from no_pin_skips_code_check [OF no_pin, of plain_db demo_ext "Some (py ''0000'')"]
    no_pin_skips_code_check [OF no_pin, of plain_db demo_ext None] no_pin rdy
  show ?thesis by simp
qed

text \<open>
  C7. After the setup and any sequence of operations the state held is one of the seven
  canonical states. After every \<^verbatim>\<open>update\<close> it is the Normalizer's value for the raw status
  the hub then reports, and every operation either keeps the held state or sets it to that
  value.
\<close>

theorem canonical_state_invariant:
  "attr_state (entity (run U X (setup_platform X w) ops)) \<in> canonical_states
   \<and> attr_state (entity (update U X s)) =
       normalizer U (hub_alarm_state X (world (update U X s)))
   \<and> (attr_state (entity (step U X s op)) = attr_state (entity s) \<or>
      attr_state (entity (step U X s op)) =
        normalizer U (hub_alarm_state X (world (step U X s op))))"
proof (intro conjI)
  show "attr_state (entity (run U X (setup_platform X w) ops)) \<in> canonical_states"
    using setup_canonical by (rule run_canonical)
  show "attr_state (entity (update U X s)) =
      normalizer U (hub_alarm_state X (world (update U X s)))"
    by (simp add: update_attr_state update_world)
  show "attr_state (entity (step U X s op)) = attr_state (entity s) \<or>
      attr_state (entity (step U X s op)) =
        normalizer U (hub_alarm_state X (world (step U X s op)))"
    by (rule step_attr_state)
qed

theorem canonical_state_invariant_witness:
  "attr_state (entity (run plain_db demo_ext
      (setup_platform demo_ext \<lparr>raw_state = Some (py ''Ready''), ready = True\<rparr>)
      [Update, AlarmArmAway (Some (py ''1234'')), AlarmDisarm (Some (py ''0000''))]))
     \<in> canonical_states
   \<and> attr_state (entity (run plain_db demo_ext
      (setup_platform demo_ext \<lparr>raw_state = Some (py ''Ready''), ready = True\<rparr>)
      [Update, AlarmArmAway (Some (py ''1234'')), AlarmDisarm (Some (py ''0000''))]))
     = STATE_ALARM_ARMING"
proof -
  have wrong: "py ''0000'' \<noteq> py ''1234''"
    by (simp add: py_def)
  have "attr_state (entity (run plain_db demo_ext (demo_sys (Some (py ''Ready'')) True)
      [Update, AlarmArmAway (Some (py ''1234'')), AlarmDisarm (Some (py ''0000''))]))
     = STATE_ALARM_ARMING"
    by (simp add: run_def alarm_arm_away_def alarm_disarm_def
        update_entity update_world normalizer_examples py_bool_def wrong)
  with canonical_state_invariant [where U = plain_db and X = demo_ext
      and w = "\<lparr>raw_state = Some (py ''Ready''), ready = True\<rparr>"
      and ops = "[Update, AlarmArmAway (Some (py ''1234'')), AlarmDisarm (Some (py ''0000''))]"]
  show ?thesis by (simp add: demo_sys_def)
qed

text \<open>
  C8. \<^verbatim>\<open>update_last_event\<close> stores the user and the timestamp and changes nothing else: every
  other field of the entity, the held state among them, the outside world and the effects
  stay as they were. The state-change listener, which drives it, changes no field of the
  entity but those two either.
\<close>

theorem last_event_frame:
  "(entity (update_last_event user timestamp s))
      \<lparr>changed_by := changed_by (entity s), changed_timestamp := changed_timestamp (entity s)\<rparr>
     = entity s
   \<and> changed_by (entity (update_last_event user timestamp s)) = user
   \<and> changed_timestamp (entity (update_last_event user timestamp s)) = timestamp
   \<and> attr_state (entity (update_last_event user timestamp s)) = attr_state (entity s)
   \<and> world (update_last_event user timestamp s) = world s
   \<and> trace (update_last_event user timestamp s) = trace s
   \<and> (entity (arm_event_listener U X event s))
      \<lparr>changed_by := changed_by (entity s), changed_timestamp := changed_timestamp (entity s)\<rparr>
     = entity s
   \<and> attr_state (entity (arm_event_listener U X event s)) = attr_state (entity s)"
  by (simp add: update_last_event_def arm_event_listener_def Let_def
      split: option.split prod.split)

theorem last_event_frame_witness:
  "entity (arm_event_listener plain_db
       (demo_ext\<lparr>hub_alarm_get_last_event :=
          \<lambda>offset w. ((Some (py ''Bob''), Some (py ''2024-02-02 08:30:00'')), w)\<rparr>)
       \<lparr>entity_id = Some (py ''alarm_control_panel.visonic_alarm''),
        old_state = Some (py ''armed_away''), new_state = Some (py ''Disarmed'')\<rparr>
       demo_armed) =
     \<lparr>attr_state = STATE_ALARM_ARMED_AWAY, user_code = Some (py ''1234''),
      no_pin_required = Some False, changed_by = Some (py ''Bob''),
      changed_timestamp = Some (py ''2024-02-02 08:30:00''), event_hour_offset = Some 0,
      ident = py ''A1B2C3''\<rparr>"
proof -
  let ?X = "demo_ext\<lparr>hub_alarm_get_last_event :=
      \<lambda>offset w. ((Some (py ''Bob''), Some (py ''2024-02-02 08:30:00'')), w)\<rparr>"
  let ?event = "\<lparr>entity_id = Some (py ''alarm_control_panel.visonic_alarm''),
      old_state = Some (py ''armed_away''), new_state = Some (py ''Disarmed'')\<rparr>"
  have lowered: "py_lower plain_db (py ''Disarmed'') = py ''disarmed''"
    by (simp add: py_lower_def ascii_lower_def py_def)
  have differ: "py ''Disarmed'' \<noteq> py ''unknown''" "py ''Disarmed'' \<noteq> []"
    "py ''armed_away'' \<noteq> py ''Disarmed''"
    by (simp_all add: py_def)
  have stored: "changed_by (entity (arm_event_listener plain_db ?X ?event demo_armed)) =
        Some (py ''Bob'')
      \<and> changed_timestamp (entity (arm_event_listener plain_db ?X ?event demo_armed)) =
        Some (py ''2024-02-02 08:30:00'')"
    by (simp add: arm_event_listener_def update_last_event_def lowered differ Let_def)
  from last_event_frame [where U = plain_db and X = ?X and s = demo_armed and event = ?event]
  have "(entity (arm_event_listener plain_db ?X ?event demo_armed))
      \<lparr>changed_by := changed_by (entity demo_armed),
        changed_timestamp := changed_timestamp (entity demo_armed)\<rparr> = entity demo_armed"
    by simp
  with stored show ?thesis
    by (cases "entity (arm_event_listener plain_db ?X ?event demo_armed)") simp
qed



text \<open>
  C10. On a wrong code with a PIN required, each command leaves the entity (held state,
  changed-by user, changed timestamp and all other fields) and the outside world as they
  were and refreshes the hub no further time. The same holds of the two arm commands on a
  panel that is not ready.
\<close>

theorem failure_leaves_entity_unchanged:
  "(\<not> py_bool (no_pin_required (entity s)) \<and> code \<noteq> user_code (entity s) \<longrightarrow>
      entity (alarm_disarm U X code s) = entity s
    \<and> entity (alarm_arm_home U X code s) = entity s
    \<and> entity (alarm_arm_away U X code s) = entity s
    \<and> world (alarm_disarm U X code s) = world s
    \<and> world (alarm_arm_home U X code s) = world s
    \<and> world (alarm_arm_away U X code s) = world s
    \<and> count_list (trace (alarm_disarm U X code s)) HubUpdate = count_list (trace s) HubUpdate
    \<and> count_list (trace (alarm_arm_home U X code s)) HubUpdate = count_list (trace s) HubUpdate
    \<and> count_list (trace (alarm_arm_away U X code s)) HubUpdate = count_list (trace s) HubUpdate)
   \<and> (\<not> hub_alarm_ready X (world s) \<longrightarrow>
      entity (alarm_arm_home U X code s) = entity s
    \<and> entity (alarm_arm_away U X code s) = entity s
    \<and> world (alarm_arm_home U X code s) = world s
    \<and> world (alarm_arm_away U X code s) = world s
    \<and> count_list (trace (alarm_arm_home U X code s)) HubUpdate = count_list (trace s) HubUpdate
    \<and> count_list (trace (alarm_arm_away U X code s)) HubUpdate = count_list (trace s) HubUpdate)"
  by (simp add: alarm_disarm_def alarm_arm_home_def alarm_arm_away_def)

theorem failure_leaves_entity_unchanged_witness:
  "\<not> py_bool (no_pin_required (entity demo_armed))
   \<and> Some (py ''0000'') \<noteq> user_code (entity demo_armed)
   \<and> \<not> hub_alarm_ready demo_ext (world demo_armed)
   \<and> attr_state (entity (alarm_disarm plain_db demo_ext (Some (py ''0000'')) demo_armed)) =
       STATE_ALARM_ARMED_AWAY
   \<and> changed_by (entity (alarm_disarm plain_db demo_ext (Some (py ''0000'')) demo_armed)) =
       Some (py ''Alice'')
   \<and> changed_timestamp (entity (alarm_disarm plain_db demo_ext (Some (py ''0000'')) demo_armed)) =
       Some (py ''2024-01-01 10:00:00'')
   \<and> entity (alarm_arm_home plain_db demo_ext (Some (py ''1234'')) demo_armed) = entity demo_armed
   \<and> count_list (trace (alarm_arm_home plain_db demo_ext (Some (py ''1234'')) demo_armed))
       HubUpdate = count_list (trace demo_armed) HubUpdate"
proof -
  have pin: "\<not> py_bool (no_pin_required (entity demo_armed))"
    by (simp add: py_bool_def)
  have wrong: "Some (py ''0000'') \<noteq> user_code (entity demo_armed)"
    by (simp add: py_def)
  have not_ready: "\<not> hub_alarm_ready demo_ext (world demo_armed)"
    by simp
  from failure_leaves_entity_unchanged [where U = plain_db and X = demo_ext and s = demo_armed and code = "Some (py ''0000'')"]
    failure_leaves_entity_unchanged [where U = plain_db and X = demo_ext and s = demo_armed and code = "Some (py ''1234'')"]
    pin wrong not_ready
  show ?thesis by simp
qed

end
